theory Spec2Isabelle
  imports Complex_Main
begin

section \<open>Text and number formatting\<close>

text \<open>
  A Python \<open>str\<close> is a sequence of code points, so text is a list of code point numbers.
  The source uses four characters beyond ASCII: the pass glyph U+2713, the warning glyph
  U+26A0 followed by the variation selector U+FE0F, the cross U+274C and the arrow U+2192.

  A Python \<open>float\<close> is modelled by the real number it denotes: comparisons are exact in
  both, the rounding of float addition and division and the value \<open>inf\<close> are not modelled.
\<close>

type_synonym ustr = "nat list"

definition u :: "string \<Rightarrow> ustr" where
  "u s = map of_char s"

definition check_glyph :: ustr where
  "check_glyph = [10003]"

definition warn_glyph :: ustr where
  "warn_glyph = [9888, 65039]"

definition cross_glyph :: ustr where
  "cross_glyph = [10060]"

definition arrow_glyph :: ustr where
  "arrow_glyph = [8594]"

definition pass_text :: ustr where
  "pass_text = check_glyph @ u '' PASS''"

definition fail_text :: ustr where
  "fail_text = cross_glyph @ u '' FAIL''"

text \<open>\<open>"\n".join(lines)\<close>\<close>

fun join_lines :: "ustr list \<Rightarrow> ustr" where
  "join_lines [] = []"
| "join_lines [l] = l"
| "join_lines (l # m # ls) = l @ [10] @ join_lines (m # ls)"

text \<open>\<open>needle in haystack\<close> on strings.\<close>

fun starts_with :: "ustr \<Rightarrow> ustr \<Rightarrow> bool" where
  "starts_with [] s = True"
| "starts_with (p # ps) [] = False"
| "starts_with (p # ps) (c # cs) = (p = c \<and> starts_with ps cs)"

fun contains :: "ustr \<Rightarrow> ustr \<Rightarrow> bool" where
  "contains p [] = (p = [])"
| "contains p (c # cs) = (starts_with p (c # cs) \<or> contains p cs)"

text \<open>\<open>str(n)\<close> for an integer, and the format specs \<open>{n:,}\<close>, \<open>{s:<w}\<close>, \<open>{s:>w}\<close>.\<close>

function str_nat :: "nat \<Rightarrow> ustr" where
  "str_nat n = (if n < 10 then [48 + n] else str_nat (n div 10) @ [48 + n mod 10])"
  by pat_completeness auto
termination
  by (relation "measure id") auto

declare str_nat.simps [simp del]

definition str_int :: "int \<Rightarrow> ustr" where
  "str_int i = (if i < 0 then u ''-'' @ str_nat (nat (- i)) else str_nat (nat i))"

function comma_group :: "ustr \<Rightarrow> ustr" where
  "comma_group ds =
     (if length ds \<le> 3 then ds
      else comma_group (take (length ds - 3) ds) @ u '','' @ drop (length ds - 3) ds)"
  by pat_completeness auto
termination
  by (relation "measure length") auto

declare comma_group.simps [simp del]

definition str_int_comma :: "int \<Rightarrow> ustr" where
  "str_int_comma i =
     (if i < 0 then u ''-'' @ comma_group (str_nat (nat (- i))) else comma_group (str_nat (nat i)))"

definition ljust :: "nat \<Rightarrow> ustr \<Rightarrow> ustr" where
  "ljust w s = s @ replicate (w - length s) 32"

definition rjust :: "nat \<Rightarrow> ustr \<Rightarrow> ustr" where
  "rjust w s = replicate (w - length s) 32 @ s"

text \<open>
  The format spec \<open>{x:.df}\<close> of a float: \<open>d\<close> digits after the point, the exact value
  rounded half to even.
\<close>

definition round_half_even :: "real \<Rightarrow> int" where
  "round_half_even x =
     (let f = \<lfloor>x\<rfloor>; r = x - of_int f
      in if r < 1 / 2 then f else if 1 / 2 < r then f + 1 else if even f then f else f + 1)"

definition fmt_fixed :: "nat \<Rightarrow> real \<Rightarrow> ustr" where
  "fmt_fixed d x =
     (let m = nat (round_half_even (\<bar>x\<bar> * 10 ^ d));
          fp = str_nat (m mod 10 ^ d)
      in (if x < 0 then u ''-'' else []) @ str_nat (m div 10 ^ d) @
         (if d = 0 then [] else u ''.'' @ replicate (d - length fp) 48 @ fp))"

section \<open>Sample model\<close>

text \<open>The dataclass \<open>LatencySample\<close>.\<close>

record LatencySample =
  timestamp :: ustr
  sample_count :: int
  total_samples :: int
  p50_ms :: real
  p95_ms :: real
  p99_ms :: real
  meets_requirement :: bool

section \<open>Aggregation in \<open>generate_report\<close>\<close>

text \<open>
  Python's \<open>sum\<close>, \<open>max\<close> and \<open>min\<close> on a list of floats. \<open>max\<close> and \<open>min\<close> raise on
  an empty list; \<open>generate_report\<close> returns before it reaches them when there is no sample,
  so they are defined on non-empty lists only.
\<close>

definition py_sum :: "real list \<Rightarrow> real" where
  "py_sum xs = foldl (+) 0 xs"

fun py_max :: "real list \<Rightarrow> real" where
  "py_max (x # xs) = foldl (\<lambda>m y. if m < y then y else m) x xs"

fun py_min :: "real list \<Rightarrow> real" where
  "py_min (x # xs) = foldl (\<lambda>m y. if y < m then y else m) x xs"

definition p50_values :: "LatencySample list \<Rightarrow> real list" where
  "p50_values samples = map p50_ms samples"

definition p95_values :: "LatencySample list \<Rightarrow> real list" where
  "p95_values samples = map p95_ms samples"

definition p99_values :: "LatencySample list \<Rightarrow> real list" where
  "p99_values samples = map p99_ms samples"

text \<open>\<open>total_samples = self.samples[-1].total_samples\<close>\<close>

definition report_total_samples :: "LatencySample list \<Rightarrow> int" where
  "report_total_samples samples = total_samples (last samples)"

text \<open>\<open>failing_windows = sum(1 for s in self.samples if not s.meets_requirement)\<close>\<close>

definition failing_windows :: "LatencySample list \<Rightarrow> nat" where
  "failing_windows samples = length (filter (\<lambda>s. \<not> meets_requirement s) samples)"

definition max_p95 :: "LatencySample list \<Rightarrow> real" where
  "max_p95 samples = py_max (p95_values samples)"

definition min_p95 :: "LatencySample list \<Rightarrow> real" where
  "min_p95 samples = py_min (p95_values samples)"

definition py_avg :: "real list \<Rightarrow> real" where
  "py_avg xs = py_sum xs / real (length xs)"

definition avg_p95 :: "LatencySample list \<Rightarrow> real" where
  "avg_p95 samples = py_avg (p95_values samples)"

definition duration_minutes :: "LatencySample list \<Rightarrow> real" where
  "duration_minutes samples = real (length samples) * 0.5"

definition sample_rate :: "LatencySample list \<Rightarrow> real" where
  "sample_rate samples =
     (if 0 < duration_minutes samples
      then of_int (report_total_samples samples) / (duration_minutes samples * 60)
      else 0)"

section \<open>Validation gate\<close>

definition validation_passed :: "LatencySample list \<Rightarrow> bool" where
  "validation_passed samples =
     (failing_windows samples = 0 \<and>
      max_p95 samples < 100.0 \<and>
      avg_p95 samples < 100.0 \<and>
      3600 \<le> report_total_samples samples)"

section \<open>Warnings\<close>

text \<open>
  Python slices \<open>xs[:i]\<close> and \<open>xs[i:]\<close>: a negative bound counts from the end, and a bound
  out of range is clipped.
\<close>

definition py_clip :: "int \<Rightarrow> nat \<Rightarrow> nat" where
  "py_clip i n = (if i < 0 then nat (max 0 (int n + i)) else nat (min i (int n)))"

definition py_slice_to :: "int \<Rightarrow> 'a list \<Rightarrow> 'a list" where
  "py_slice_to i xs = take (py_clip i (length xs)) xs"

definition py_slice_from :: "int \<Rightarrow> 'a list \<Rightarrow> 'a list" where
  "py_slice_from i xs = drop (py_clip i (length xs)) xs"

text \<open>
  \<open>early_avg = sum(p95_values[:len(p95_values)//3]) / (len(p95_values)//3)\<close> and
  \<open>late_avg = sum(p95_values[-len(p95_values)//3:]) / (len(p95_values)//3)\<close>.
  In Python the unary minus binds tighter than \<open>//\<close>, so the lower bound of the second
  slice is \<open>(-len(p95_values)) // 3\<close>, with the floor division of Python, which is
  \<open>div\<close> on \<open>int\<close>.
\<close>

definition early_avg :: "real list \<Rightarrow> real" where
  "early_avg vs =
     py_sum (py_slice_to (int (length vs) div 3) vs) / of_int (int (length vs) div 3)"

definition late_avg :: "real list \<Rightarrow> real" where
  "late_avg vs =
     py_sum (py_slice_from ((- int (length vs)) div 3) vs) / of_int (int (length vs) div 3)"

definition trend_fires :: "real list \<Rightarrow> bool" where
  "trend_fires vs = (5 \<le> length vs \<and> early_avg vs * 1.2 < late_avg vs)"

definition exceeded_warning :: "real \<Rightarrow> ustr" where
  "exceeded_warning m =
     warn_glyph @ u ''  P95 exceeded 100ms (max: '' @ fmt_fixed 2 m @ u ''ms)''"

definition close_warning :: "real \<Rightarrow> ustr" where
  "close_warning m =
     warn_glyph @ u ''  P95 close to threshold (max: '' @ fmt_fixed 2 m @ u ''ms)''"

definition average_warning :: "real \<Rightarrow> ustr" where
  "average_warning a = warn_glyph @ u ''  Average P95 high ('' @ fmt_fixed 2 a @ u ''ms)''"

definition outlier_warning :: "real \<Rightarrow> ustr" where
  "outlier_warning m =
     warn_glyph @ u ''  P99 shows outliers (max: '' @ fmt_fixed 2 m @ u ''ms)''"

definition insufficient_warning :: "int \<Rightarrow> ustr" where
  "insufficient_warning t =
     warn_glyph @ u ''  Insufficient samples ('' @ str_int_comma t @ u '' < 3,600)''"

definition short_warning :: "real \<Rightarrow> ustr" where
  "short_warning d =
     warn_glyph @ u ''  Session too short ('' @ fmt_fixed 1 d @ u '' < 30 minutes)''"

definition trend_warning :: "real \<Rightarrow> real \<Rightarrow> ustr" where
  "trend_warning e l =
     warn_glyph @ u ''  P95 increasing over time ('' @ fmt_fixed 1 e @ u ''ms '' @
     arrow_glyph @ u '' '' @ fmt_fixed 1 l @ u ''ms)''"

text \<open>The list \<open>warnings\<close> of \<open>generate_report\<close>, in the order of its appends.\<close>

definition warnings :: "LatencySample list \<Rightarrow> ustr list" where
  "warnings samples =
     (if 100.0 < max_p95 samples then [exceeded_warning (max_p95 samples)]
      else if 90.0 < max_p95 samples then [close_warning (max_p95 samples)]
      else []) @
     (if 80.0 < avg_p95 samples then [average_warning (avg_p95 samples)] else []) @
     (if 150.0 < py_max (p99_values samples)
      then [outlier_warning (py_max (p99_values samples))] else []) @
     (if report_total_samples samples < 3600
      then [insufficient_warning (report_total_samples samples)] else []) @
     (if duration_minutes samples < 30
      then [short_warning (duration_minutes samples)] else []) @
     (if trend_fires (p95_values samples)
      then [trend_warning (early_avg (p95_values samples)) (late_avg (p95_values samples))]
      else [])"

section \<open>Report\<close>

text \<open>
  The list literal \<open>report_lines\<close> of \<open>generate_report\<close>, cut into its sections: the title
  and session information, the three statistics blocks, and the validation results with
  the overall verdict.
\<close>

definition rule60 :: ustr where
  "rule60 = replicate 60 61"

definition session_lines :: "ustr \<Rightarrow> LatencySample list \<Rightarrow> ustr list" where
  "session_lines file_name samples =
     [rule60,
      u ''LATENCY VALIDATION REPORT'',
      rule60,
      [],
      u ''Session Information:'',
      u ''  Log File: '' @ file_name,
      u ''  Log Entries: '' @ str_int (int (length samples)),
      u ''  Estimated Duration: '' @ fmt_fixed 1 (duration_minutes samples) @ u '' minutes'',
      u ''  Total Samples: '' @ str_int_comma (report_total_samples samples),
      u ''  Sample Rate: '' @ fmt_fixed 2 (sample_rate samples) @ u '' Hz'',
      []]"

definition statistics_block :: "ustr \<Rightarrow> real list \<Rightarrow> ustr list" where
  "statistics_block name vs =
     [u ''Latency Statistics ('' @ name @ u ''):'',
      u ''  Average: '' @ fmt_fixed 2 (py_avg vs) @ u '' ms'',
      u ''  Minimum: '' @ fmt_fixed 2 (py_min vs) @ u '' ms'',
      u ''  Maximum: '' @ fmt_fixed 2 (py_max vs) @ u '' ms'',
      []]"

definition statistics_lines :: "LatencySample list \<Rightarrow> ustr list" where
  "statistics_lines samples =
     statistics_block (u ''P95'') (p95_values samples) @
     statistics_block (u ''P50'') (p50_values samples) @
     statistics_block (u ''P99'') (p99_values samples)"

definition validation_lines :: "LatencySample list \<Rightarrow> ustr list" where
  "validation_lines samples =
     [u ''Validation Results:'',
      u ''  P95 < 100ms Requirement: '' @
        (if max_p95 samples < 100.0 then pass_text else fail_text),
      u ''  Failing Windows: '' @ str_int (int (failing_windows samples)) @ u '' / '' @
        str_int (int (length samples)),
      u ''  Minimum Sample Count: '' @
        (if 3600 \<le> report_total_samples samples then pass_text else fail_text) @
        u '' ('' @ str_int_comma (report_total_samples samples) @ u '' / 3,600)'',
      [],
      u ''Overall Validation: '' @ (if validation_passed samples then pass_text else fail_text),
      []]"

definition warning_lines :: "LatencySample list \<Rightarrow> ustr list" where
  "warning_lines samples =
     (if warnings samples = [] then []
      else [u ''Warnings:''] @ map (\<lambda>w. u ''  '' @ w) (warnings samples) @ [[]])"

definition detail_row :: "LatencySample \<Rightarrow> ustr" where
  "detail_row sample =
     ljust 20 (timestamp sample) @ u '' '' @ rjust 8 (str_int (sample_count sample)) @ u '' '' @
     rjust 7 (fmt_fixed 2 (p50_ms sample)) @ u ''ms '' @
     rjust 7 (fmt_fixed 2 (p95_ms sample)) @ u ''ms '' @
     rjust 7 (fmt_fixed 2 (p99_ms sample)) @ u ''ms '' @
     rjust 6 (if meets_requirement sample then check_glyph else cross_glyph)"

definition detail_lines :: "LatencySample list \<Rightarrow> bool \<Rightarrow> ustr list" where
  "detail_lines samples detailed =
     (if detailed \<and> 0 < length samples
      then [rule60,
            u ''DETAILED BREAKDOWN'',
            rule60,
            [],
            ljust 20 (u ''Timestamp'') @ u '' '' @ rjust 8 (u ''Samples'') @ u '' '' @
              rjust 8 (u ''P50'') @ u '' '' @ rjust 8 (u ''P95'') @ u '' '' @
              rjust 8 (u ''P99'') @ u '' '' @ rjust 6 (u ''Status''),
            replicate 70 45] @
           map detail_row samples @ [[]]
      else [])"

definition report_lines :: "ustr \<Rightarrow> LatencySample list \<Rightarrow> bool \<Rightarrow> ustr list" where
  "report_lines file_name samples detailed =
     session_lines file_name samples @ statistics_lines samples @ validation_lines samples @
     warning_lines samples @ detail_lines samples detailed @ [rule60]"

definition generate_report :: "ustr \<Rightarrow> LatencySample list \<Rightarrow> bool \<Rightarrow> ustr" where
  "generate_report file_name samples detailed =
     (if samples = [] then u ''No latency samples found in log file.''
      else join_lines (report_lines file_name samples detailed))"

section \<open>Regular expression of \<open>parse_logs\<close>\<close>

text \<open>
  The pattern of the source uses literals, repetitions of a one-character class (greedy or
  lazy), one alternation of literals and seven capture groups, none nested. A backtracking
  matcher for such patterns follows: a repetition tries its counts in the order of its
  preference (longest first when greedy, shortest first when lazy), an alternation tries its
  branches from left to right, and the first choice that lets the rest of the pattern match
  wins. Under \<open>re.DOTALL\<close> the dot matches every character; \<open>re.MULTILINE\<close> changes
  \<open>^\<close> and \<open>$\<close> only, which the pattern does not use.

  \<open>\s\<close> is the white space of Unicode. \<open>\d\<close> is modelled on the ASCII digits; the
  decimal digits of other scripts, which Python accepts too, are left out.
\<close>

datatype cclass = Digit | Space | AnyChar | DigitOrDot

definition is_digit :: "nat \<Rightarrow> bool" where
  "is_digit c = (48 \<le> c \<and> c \<le> 57)"

definition is_space :: "nat \<Rightarrow> bool" where
  "is_space c =
     ((9 \<le> c \<and> c \<le> 13) \<or> (28 \<le> c \<and> c \<le> 32) \<or> c = 133 \<or> c = 160 \<or> c = 5760 \<or>
      (8192 \<le> c \<and> c \<le> 8202) \<or> c = 8232 \<or> c = 8233 \<or> c = 8239 \<or> c = 8287 \<or> c = 12288)"

fun in_class :: "cclass \<Rightarrow> nat \<Rightarrow> bool" where
  "in_class Digit c = is_digit c"
| "in_class Space c = is_space c"
| "in_class AnyChar c = True"
| "in_class DigitOrDot c = (is_digit c \<or> c = 46)"

datatype item =
    Lit ustr
  | Rep cclass nat "nat option" bool
  | Alt "ustr list"
  | Open
  | Close

fun first_some :: "('a \<Rightarrow> 'b option) \<Rightarrow> 'a list \<Rightarrow> 'b option" where
  "first_some f [] = None"
| "first_some f (x # xs) = (case f x of Some y \<Rightarrow> Some y | None \<Rightarrow> first_some f xs)"

definition run_len :: "cclass \<Rightarrow> ustr \<Rightarrow> nat" where
  "run_len c s = length (takeWhile (in_class c) s)"

definition rep_counts :: "nat \<Rightarrow> nat option \<Rightarrow> bool \<Rightarrow> nat \<Rightarrow> nat list" where
  "rep_counts lo hi greedy avail =
     (let m = (case hi of None \<Rightarrow> avail | Some h \<Rightarrow> min h avail)
      in if greedy then rev [lo..<Suc m] else [lo..<Suc m])"

text \<open>
  \<open>rmatch items s pos marks\<close> matches \<open>items\<close> at the start of \<open>s\<close>, which begins \<open>pos\<close>
  characters after the start of the match; \<open>marks\<close> collects the positions at which the
  groups open and close. The result is the length of the match and the marks.
\<close>

fun rmatch :: "item list \<Rightarrow> ustr \<Rightarrow> nat \<Rightarrow> nat list \<Rightarrow> (nat \<times> nat list) option" where
  "rmatch [] s pos marks = Some (pos, marks)"
| "rmatch (Lit l # r) s pos marks =
     (if starts_with l s then rmatch r (drop (length l) s) (pos + length l) marks else None)"
| "rmatch (Rep c lo hi greedy # r) s pos marks =
     first_some (\<lambda>k. rmatch r (drop k s) (pos + k) marks) (rep_counts lo hi greedy (run_len c s))"
| "rmatch (Alt ls # r) s pos marks =
     first_some (\<lambda>l. if starts_with l s
                     then rmatch r (drop (length l) s) (pos + length l) marks else None) ls"
| "rmatch (Open # r) s pos marks = rmatch r s pos (marks @ [pos])"
| "rmatch (Close # r) s pos marks = rmatch r s pos (marks @ [pos])"

fun groups :: "ustr \<Rightarrow> nat list \<Rightarrow> ustr list" where
  "groups s (a # b # ms) = take (b - a) (drop a s) # groups s ms"
| "groups s ms = []"

text \<open>
  \<open>pattern.findall(content)\<close>: the matches from left to right, none overlapping, each
  given by its groups. The search goes on where the match ended; the pattern of the source
  matches no empty text, and after an empty match the model moves on by one character.
\<close>

function findall :: "item list \<Rightarrow> ustr \<Rightarrow> ustr list list" where
  "findall p [] = (case rmatch p [] 0 [] of Some (e, marks) \<Rightarrow> [groups [] marks] | None \<Rightarrow> [])"
| "findall p (c # cs) =
     (case rmatch p (c # cs) 0 [] of
        Some (e, marks) \<Rightarrow> groups (c # cs) marks # findall p (drop (max e 1) (c # cs))
      | None \<Rightarrow> findall p cs)"
  by pat_completeness auto
termination
  by (relation "measure (\<lambda>(p, s). length s)") auto

definition skip :: item where
  "skip = Rep AnyChar 0 None False"

definition spaces :: item where
  "spaces = Rep Space 0 None True"

definition two_digits :: item where
  "two_digits = Rep Digit 2 (Some 2) True"

definition percentile_line :: "string \<Rightarrow> item list" where
  "percentile_line name =
     [skip, Lit (u name), spaces, Open, Rep DigitOrDot 1 None True, Close, spaces,
      Lit (u ''ms''), spaces, Lit [10]]"

definition pattern :: "item list" where
  "pattern =
     [Open, two_digits, Lit (u ''-''), two_digits, Rep Space 1 None True,
      two_digits, Lit (u '':''), two_digits, Lit (u '':''), two_digits, Lit (u ''.''),
      Rep Digit 1 None True, Close,
      skip, Lit (u ''[LatencyService] Latency Statistics:''), spaces, Lit [10],
      skip, Lit (u ''Samples:''), spaces, Open, Rep Digit 1 None True, Close, spaces,
      Lit (u ''(Total:''), spaces, Open, Rep Digit 1 None True, Close, Lit (u '')''), spaces,
      Lit [10]] @
     percentile_line ''P50:'' @ percentile_line ''P95:'' @ percentile_line ''P99:'' @
     [skip, Open, Alt [check_glyph, warn_glyph, u ''WARNING''], Close]"

section \<open>\<open>parse_logs\<close>\<close>

text \<open>
  \<open>int\<close> and \<open>float\<close> raise \<open>ValueError\<close> on a text that is no number, and so does the
  unpacking of a tuple of the wrong length. \<open>float\<close> accepts digits with at most one point
  and at least one digit. (The limit that recent interpreters put on the number of digits
  \<open>int\<close> converts is left out.)
\<close>

datatype error = ValueError

definition digit_value :: "ustr \<Rightarrow> nat" where
  "digit_value ds = foldl (\<lambda>a c. 10 * a + (c - 48)) 0 ds"

definition py_int :: "ustr \<Rightarrow> error + int" where
  "py_int s = (if s \<noteq> [] \<and> list_all is_digit s then Inr (int (digit_value s)) else Inl ValueError)"

definition py_float :: "ustr \<Rightarrow> error + real" where
  "py_float s =
     (let ip = takeWhile is_digit s; rest = dropWhile is_digit s
      in case rest of
           [] \<Rightarrow> if ip = [] then Inl ValueError else Inr (real (digit_value ip))
         | c # fp \<Rightarrow>
             if c = 46 \<and> list_all is_digit fp \<and> (ip \<noteq> [] \<or> fp \<noteq> [])
             then Inr (real (digit_value ip) + real (digit_value fp) / 10 ^ length fp)
             else Inl ValueError)"

definition strip :: "ustr \<Rightarrow> ustr" where
  "strip s = rev (dropWhile is_space (rev (dropWhile is_space s)))"

text \<open>The body of the loop over the matches: the keyword arguments are evaluated in order.\<close>

fun to_sample :: "ustr list \<Rightarrow> error + LatencySample" where
  "to_sample [ts, samples, totl, p50, p95, p99, status] =
     (case py_int samples of Inl e \<Rightarrow> Inl e | Inr sc \<Rightarrow>
      case py_int totl of Inl e \<Rightarrow> Inl e | Inr tot \<Rightarrow>
      case py_float p50 of Inl e \<Rightarrow> Inl e | Inr v50 \<Rightarrow>
      case py_float p95 of Inl e \<Rightarrow> Inl e | Inr v95 \<Rightarrow>
      case py_float p99 of Inl e \<Rightarrow> Inl e | Inr v99 \<Rightarrow>
        Inr \<lparr>timestamp = strip ts, sample_count = sc, total_samples = tot,
             p50_ms = v50, p95_ms = v95, p99_ms = v99,
             meets_requirement = (status = check_glyph)\<rparr>)"
| "to_sample m = Inl ValueError"

fun to_samples :: "ustr list list \<Rightarrow> error + LatencySample list" where
  "to_samples [] = Inr []"
| "to_samples (m # ms) =
     (case to_sample m of Inl e \<Rightarrow> Inl e | Inr s \<Rightarrow>
      case to_samples ms of Inl e \<Rightarrow> Inl e | Inr ss \<Rightarrow> Inr (s # ss))"

text \<open>
  \<open>parse_logs\<close>: the file is absent (\<open>None\<close>) or holds a text. The result is the samples
  and the flag the method returns, or the exception that leaves it.
\<close>

definition extract_samples :: "ustr \<Rightarrow> error + LatencySample list" where
  "extract_samples content = to_samples (findall pattern content)"

definition parse_logs :: "ustr option \<Rightarrow> error + (bool \<times> LatencySample list)" where
  "parse_logs file =
     (case file of
        None \<Rightarrow> Inr (False, [])
      | Some content \<Rightarrow>
          (case extract_samples content of Inl e \<Rightarrow> Inl e | Inr samples \<Rightarrow> Inr (0 < length samples, samples)))"

section \<open>\<open>export_csv\<close>\<close>

text \<open>
  The destination either opens for writing or raises, and the exception is caught inside
  \<open>export_csv\<close>. A float field is written with \<open>str\<close>, the shortest text that reads back
  as the same binary float; it depends on the binary representation and is a parameter here.
  The result is the flag returned, the text of the file if one was written, and the
  lines printed on the error stream.
\<close>

datatype destination = Writable | Unwritable ustr

definition csv_header :: ustr where
  "csv_header =
     u ''timestamp,sample_count,total_samples,p50_ms,p95_ms,p99_ms,meets_requirement'' @ [10]"

definition str_bool :: "bool \<Rightarrow> ustr" where
  "str_bool b = (if b then u ''True'' else u ''False'')"

definition csv_row :: "(real \<Rightarrow> ustr) \<Rightarrow> LatencySample \<Rightarrow> ustr" where
  "csv_row float_str sample =
     timestamp sample @ u '','' @ str_int (sample_count sample) @ u '','' @
     str_int (total_samples sample) @ u '','' @
     float_str (p50_ms sample) @ u '','' @ float_str (p95_ms sample) @ u '','' @
     float_str (p99_ms sample) @ u '','' @
     str_bool (meets_requirement sample) @ [10]"

definition export_csv ::
  "(real \<Rightarrow> ustr) \<Rightarrow> destination \<Rightarrow> LatencySample list \<Rightarrow> bool \<times> ustr option \<times> ustr list" where
  "export_csv float_str dest samples =
     (if samples = [] then (False, None, [u ''No samples to export''])
      else case dest of
             Unwritable e \<Rightarrow> (False, None, [u ''Error writing CSV: '' @ e])
           | Writable \<Rightarrow> (True, Some (csv_header @ concat (map (csv_row float_str) samples)), []))"

section \<open>\<open>main\<close>\<close>

text \<open>
  The exit code of \<open>main\<close>, or the exception that leaves it (the interpreter then exits
  with code 1). The export to CSV comes between the report and the exit and has no part in
  the exit code: \<open>export_csv\<close> catches its own exceptions and \<open>main\<close> drops its result.
\<close>

definition main :: "ustr \<Rightarrow> ustr option \<Rightarrow> bool \<Rightarrow> error + nat" where
  "main file_name file detailed =
     (case parse_logs file of
        Inl e \<Rightarrow> Inl e
      | Inr (ok, samples) \<Rightarrow>
          if \<not> ok then Inr 1
          else if contains pass_text (generate_report file_name samples detailed) then Inr 0
          else Inr 1)"

section \<open>Example inputs\<close>

definition example_sample :: "int \<Rightarrow> real \<Rightarrow> bool \<Rightarrow> LatencySample" where
  "example_sample t p ok =
     \<lparr>timestamp = u ''01-13 14:30:00.123'', sample_count = 60, total_samples = t,
      p50_ms = p, p95_ms = p, p99_ms = p, meets_requirement = ok\<rparr>"

section \<open>Properties of the aggregation\<close>

lemma foldl_add: "foldl (+) a xs = a + sum_list (xs::real list)"
  by (induction xs arbitrary: a) simp_all

lemma py_sum_sum_list: "py_sum xs = sum_list xs"
  by (simp add: py_sum_def foldl_add)

lemma foldl_max: "foldl (\<lambda>m y. if m < y then y else m) x xs = Max (insert (x::real) (set xs))"
proof (induction xs arbitrary: x)
  case Nil
  then show ?case by simp
next
  case (Cons y ys)
  have "Max (insert (if x < y then y else x) (set ys)) = Max (insert x (insert y (set ys)))"
    by (cases "set ys = {}") (auto simp: max_def Max_insert)
  with Cons show ?case by simp
qed

lemma py_max_Max: "xs \<noteq> [] \<Longrightarrow> py_max xs = Max (set xs)"
  by (cases xs) (simp_all add: foldl_max)

text \<open>
  C5: for a non-empty sample sequence the aggregated total is the \<open>total_samples\<close> field of
  the last sample; it does not depend on the samples before the last one, so it is not a sum
  over the sequence.
\<close>

theorem total_samples_is_last:
  "samples \<noteq> [] \<Longrightarrow>
     report_total_samples samples = total_samples (last samples) \<and>
     (\<forall>earlier. report_total_samples (earlier @ [last samples]) = report_total_samples samples)"
  by (simp add: report_total_samples_def)

theorem total_samples_is_last_witness:
  "[example_sample 100 50 True, example_sample 250 60 True] \<noteq> [] \<and>
   report_total_samples [example_sample 100 50 True, example_sample 250 60 True] = 250 \<and>
   report_total_samples [example_sample 250 60 True] = 250"
  using total_samples_is_last [of "[example_sample 100 50 True, example_sample 250 60 True]"]
  by (simp add: example_sample_def report_total_samples_def)

end
